theory Spec2Isabelle
  imports Main "HOL-Library.Finite_Map" "HOL-Library.Char_ord" "HOL-Library.List_Lexorder"
begin

section \<open>Data model of pkg/validator/schema.go\<close>

text \<open>
  Go strings are byte sequences and are compared byte by byte; \<open>string\<close> with the
  character order of \<open>Char_ord\<close> and the lexicographic list order is the same order.
  A Go map is a finite map: \<open>('k, 'v) fmap\<close>. Indexing a Go map at a missing key yields
  the zero value of the value type, which for a string-typed value is the empty string.
\<close>

type_synonym Severity = string
type_synonym TargetKind = string

text \<open>
  The target kinds are string constants declared in pkg/config, outside this file.
  Modelled from the spec: the scopes are named Pod, Controller, Container and Other; no
  property below depends on the spelling, only on \<open>TargetPod\<close> being one fixed value.
\<close>

definition TargetController :: TargetKind where "TargetController = ''Controller''"
definition TargetPod :: TargetKind where "TargetPod = ''Pod''"
definition TargetContainer :: TargetKind where "TargetContainer = ''Container''"
definition TargetOther :: TargetKind where "TargetOther = ''Other''"

text \<open>
  \<open>config.SchemaCheck\<close>: the fields this file reads, and \<open>Schema\<close> for everything else
  the check carries (its JSON schema, its controller and container selectors).
\<close>

record 's SchemaCheck =
  ID :: string
  Category :: string
  SuccessMessage :: string
  FailureMessage :: string
  SchemaTarget :: TargetKind
  Schema :: 's

text \<open>
  \<open>config.Configuration\<close>: severities by check ID, custom checks by check ID, the
  exemption switch, and \<open>Exemptions\<close> for the include and exclude rules that
  \<open>conf.IsActionable\<close> reads.
\<close>

record ('s, 'x) Configuration =
  Checks :: "(string, Severity) fmap"
  CustomChecks :: "(string, 's SchemaCheck) fmap"
  DisallowExemptions :: bool
  Exemptions :: 'x

text \<open>\<open>metaV1.Object\<close> is an interface; the three getters this file calls.\<close>

record ObjectMeta =
  GetNamespace :: string
  GetName :: string
  GetAnnotations :: "(string, string) fmap"

record 'c Container =
  Name :: string
  ContainerSpec :: 'c

record ('c, 'p) PodSpec =
  InitContainers :: "'c Container list"
  Containers :: "'c Container list"
  PodRest :: 'p

record ('c, 'p) GenericWorkload =
  Kind :: string
  PodSpec :: "('c, 'p) PodSpec"
  ObjectMeta :: ObjectMeta
  OriginalObjectJSON :: string

record ResultMessage =
  ResultID :: string
  Severity :: Severity
  ResultCategory :: string
  Success :: bool
  Message :: string

type_synonym ResultSet = "(string, ResultMessage) fmap"

datatype error =
  CheckNotFound string
| DecodingFailed error
| Foreign string

text \<open>
  What the file calls and does not define: the built-in catalog filled by \<open>init\<close>, the
  two actionability tests, the four predicate evaluators of a check, and the metadata
  accessor and kind of an unstructured object. An evaluator returns \<open>Inl\<close> for Go's
  non-nil error and \<open>Inr passes\<close> otherwise.
\<close>

record ('s, 'x, 'c, 'p, 'u) env =
  builtInChecks :: "(string, 's SchemaCheck) fmap"
  conf_IsActionable :: "('s, 'x) Configuration \<Rightarrow> string \<Rightarrow> string \<Rightarrow> string \<Rightarrow> string \<Rightarrow> bool"
  check_IsActionable :: "'s SchemaCheck \<Rightarrow> TargetKind \<Rightarrow> string \<Rightarrow> bool \<Rightarrow> bool"
  CheckPod :: "'s SchemaCheck \<Rightarrow> ('c, 'p) PodSpec \<Rightarrow> error + bool"
  CheckController :: "'s SchemaCheck \<Rightarrow> string \<Rightarrow> error + bool"
  CheckContainer :: "'s SchemaCheck \<Rightarrow> 'c Container \<Rightarrow> error + bool"
  CheckObject :: "'s SchemaCheck \<Rightarrow> 'u \<Rightarrow> error + bool"
  Accessor :: "'u \<Rightarrow> error + ObjectMeta"
  GetKind :: "'u \<Rightarrow> string"

section \<open>Check resolution\<close>

text \<open>
  \<open>resolveCheck\<close> returns \<open>(nil, err)\<close>, \<open>(nil, nil)\<close> or \<open>(&check, nil)\<close>:
  \<open>Inl err\<close>, \<open>Inr None\<close> and \<open>Inr (Some check)\<close>.
\<close>

definition resolveCheck ::
  "('s, 'x, 'c, 'p, 'u) env \<Rightarrow> ('s, 'x) Configuration \<Rightarrow> string \<Rightarrow> string \<Rightarrow> TargetKind
    \<Rightarrow> ObjectMeta \<Rightarrow> string \<Rightarrow> bool \<Rightarrow> error + 's SchemaCheck option" where
  "resolveCheck env conf checkID kind target meta containerName isInitContainer =
     (case (case fmlookup (CustomChecks conf) checkID of
              Some check \<Rightarrow> Some check
            | None \<Rightarrow> fmlookup (builtInChecks env) checkID) of
        None \<Rightarrow> Inl (CheckNotFound checkID)
      | Some check \<Rightarrow>
          (let namespace = GetNamespace meta;
               name = GetName meta
           in if \<not> conf_IsActionable env conf (ID check) namespace name containerName
              then Inr None
              else if \<not> check_IsActionable env check target kind isInitContainer
              then Inr None
              else Inr (Some check)))"

definition index_str :: "(string, string) fmap \<Rightarrow> string \<Rightarrow> string" where
  "index_str m k = (case fmlookup m k of None \<Rightarrow> [] | Some v \<Rightarrow> v)"

definition makeResult :: "('s, 'x) Configuration \<Rightarrow> 's SchemaCheck \<Rightarrow> bool \<Rightarrow> ResultMessage" where
  "makeResult conf check passes =
     \<lparr> ResultID = ID check,
       Severity = index_str (Checks conf) (ID check),
       ResultCategory = Category check,
       Success = passes,
       Message = (if passes then SuccessMessage check else FailureMessage check) \<rparr>"

section \<open>Exemption annotations\<close>

definition exemptionAnnotationKey :: string where
  "exemptionAnnotationKey = ''polaris.fairwinds.com/exempt''"

text \<open>\<open>fmt.Sprintf(exemptionAnnotationPattern, checkID)\<close>.\<close>

definition exemptionAnnotationPattern :: "string \<Rightarrow> string" where
  "exemptionAnnotationPattern checkID = ''polaris.fairwinds.com/'' @ checkID @ ''-exempt''"

text \<open>
  \<open>strings.ToLower\<close> on the bytes of a string: an ASCII capital becomes its small
  letter. The Go function also maps capitals beyond ASCII, none of which has a small
  letter among t, r, u, e, so the comparison with \<open>"true"\<close> below is the same.
\<close>

definition toLowerChar :: "char \<Rightarrow> char" where
  "toLowerChar c =
     (if CHR ''A'' \<le> c \<and> c \<le> CHR ''Z'' then char_of (of_char c + (32::nat)) else c)"

definition ToLower :: "string \<Rightarrow> string" where
  "ToLower s = map toLowerChar s"

definition hasExemptionAnnotation :: "('c, 'p) GenericWorkload \<Rightarrow> string \<Rightarrow> bool" where
  "hasExemptionAnnotation ctrl checkID =
     (let annot = GetAnnotations (ObjectMeta ctrl);
          val = index_str annot exemptionAnnotationKey
      in if ToLower val = ''true'' then True
         else let checkKey = exemptionAnnotationPattern checkID;
                  val = index_str annot checkKey
              in if ToLower val = ''true'' then True else False)"

section \<open>The passes\<close>

text \<open>
  \<open>getSortedKeys\<close> collects the keys of the map in the map's iteration order and sorts
  them with \<open>sort.Strings\<close>; whatever the iteration order, the result is the keys in
  ascending order, each once.
\<close>

definition getSortedKeys :: "(string, Severity) fmap \<Rightarrow> string list" where
  "getSortedKeys m = sorted_list_of_fset (fmdom m)"

text \<open>
  An entry point returns Go's pair \<open>(ResultSet, error)\<close>. The first component is
  \<open>None\<close> for a nil ResultSet, the second is \<open>None\<close> for a nil error. Each loop is a
  recursion over the remaining check IDs that carries \<open>results\<close>.
\<close>

type_synonym passResult = "ResultSet option \<times> error option"

fun applyPodSchemaChecks_loop ::
  "('s, 'x, 'c, 'p, 'u) env \<Rightarrow> ('s, 'x) Configuration \<Rightarrow> ('c, 'p) GenericWorkload
    \<Rightarrow> string list \<Rightarrow> ResultSet \<Rightarrow> passResult" where
  "applyPodSchemaChecks_loop env conf controller [] results = (Some results, None)"
| "applyPodSchemaChecks_loop env conf controller (checkID # checkIDs) results =
     (if \<not> DisallowExemptions conf \<and> hasExemptionAnnotation controller checkID
      then applyPodSchemaChecks_loop env conf controller checkIDs results
      else case resolveCheck env conf checkID (Kind controller) TargetPod
                  (ObjectMeta controller) [] False of
             Inl err \<Rightarrow> (None, Some err)
           | Inr None \<Rightarrow> applyPodSchemaChecks_loop env conf controller checkIDs results
           | Inr (Some check) \<Rightarrow>
               (case CheckPod env check (PodSpec controller) of
                  Inl err \<Rightarrow> (None, Some err)
                | Inr passes \<Rightarrow>
                    applyPodSchemaChecks_loop env conf controller checkIDs
                      (fmupd (ID check) (makeResult conf check passes) results)))"

definition applyPodSchemaChecks ::
  "('s, 'x, 'c, 'p, 'u) env \<Rightarrow> ('s, 'x) Configuration \<Rightarrow> ('c, 'p) GenericWorkload \<Rightarrow> passResult" where
  "applyPodSchemaChecks env conf controller =
     applyPodSchemaChecks_loop env conf controller (getSortedKeys (Checks conf)) fmempty"

fun applyControllerSchemaChecks_loop ::
  "('s, 'x, 'c, 'p, 'u) env \<Rightarrow> ('s, 'x) Configuration \<Rightarrow> ('c, 'p) GenericWorkload
    \<Rightarrow> string list \<Rightarrow> ResultSet \<Rightarrow> passResult" where
  "applyControllerSchemaChecks_loop env conf controller [] results = (Some results, None)"
| "applyControllerSchemaChecks_loop env conf controller (checkID # checkIDs) results =
     (if \<not> DisallowExemptions conf \<and> hasExemptionAnnotation controller checkID
      then applyControllerSchemaChecks_loop env conf controller checkIDs results
      else case resolveCheck env conf checkID (Kind controller) TargetController
                  (ObjectMeta controller) [] False of
             Inl err \<Rightarrow> (None, Some err)
           | Inr None \<Rightarrow> applyControllerSchemaChecks_loop env conf controller checkIDs results
           | Inr (Some check) \<Rightarrow>
               (case CheckController env check (OriginalObjectJSON controller) of
                  Inl err \<Rightarrow> (None, Some err)
                | Inr passes \<Rightarrow>
                    applyControllerSchemaChecks_loop env conf controller checkIDs
                      (fmupd (ID check) (makeResult conf check passes) results)))"

definition applyControllerSchemaChecks ::
  "('s, 'x, 'c, 'p, 'u) env \<Rightarrow> ('s, 'x) Configuration \<Rightarrow> ('c, 'p) GenericWorkload \<Rightarrow> passResult" where
  "applyControllerSchemaChecks env conf controller =
     applyControllerSchemaChecks_loop env conf controller (getSortedKeys (Checks conf)) fmempty"

text \<open>
  For a check whose \<open>SchemaTarget\<close> is \<open>TargetPod\<close> the container pass evaluates the
  pod predicate on a copy of the pod specification whose init containers are emptied and
  whose containers are the one container under test.
\<close>

fun applyContainerSchemaChecks_loop ::
  "('s, 'x, 'c, 'p, 'u) env \<Rightarrow> ('s, 'x) Configuration \<Rightarrow> ('c, 'p) GenericWorkload
    \<Rightarrow> 'c Container \<Rightarrow> bool \<Rightarrow> string list \<Rightarrow> ResultSet \<Rightarrow> passResult" where
  "applyContainerSchemaChecks_loop env conf controller container isInit [] results =
     (Some results, None)"
| "applyContainerSchemaChecks_loop env conf controller container isInit (checkID # checkIDs) results =
     (if \<not> DisallowExemptions conf \<and> hasExemptionAnnotation controller checkID
      then applyContainerSchemaChecks_loop env conf controller container isInit checkIDs results
      else case resolveCheck env conf checkID (Kind controller) TargetContainer
                  (ObjectMeta controller) (Name container) isInit of
             Inl err \<Rightarrow> (None, Some err)
           | Inr None \<Rightarrow>
               applyContainerSchemaChecks_loop env conf controller container isInit checkIDs results
           | Inr (Some check) \<Rightarrow>
               (case (if SchemaTarget check = TargetPod
                      then (let podCopy = PodSpec controller;
                                podCopy = podCopy\<lparr>InitContainers := []\<rparr>;
                                podCopy = podCopy\<lparr>Containers := [container]\<rparr>
                            in CheckPod env check podCopy)
                      else CheckContainer env check container) of
                  Inl err \<Rightarrow> (None, Some err)
                | Inr passes \<Rightarrow>
                    applyContainerSchemaChecks_loop env conf controller container isInit checkIDs
                      (fmupd (ID check) (makeResult conf check passes) results)))"

definition applyContainerSchemaChecks ::
  "('s, 'x, 'c, 'p, 'u) env \<Rightarrow> ('s, 'x) Configuration \<Rightarrow> ('c, 'p) GenericWorkload
    \<Rightarrow> 'c Container \<Rightarrow> bool \<Rightarrow> passResult" where
  "applyContainerSchemaChecks env conf controller container isInit =
     applyContainerSchemaChecks_loop env conf controller container isInit
       (getSortedKeys (Checks conf)) fmempty"

text \<open>
  The two passes over an unstructured object have one loop: they differ in the target
  kind handed to \<open>resolveCheck\<close> (the empty string, and \<open>TargetOther\<close>). Neither
  consults the exemption annotations. A failing metadata accessor returns the empty
  ResultSet together with its error.
\<close>

fun applyObjectSchemaChecks_loop ::
  "('s, 'x, 'c, 'p, 'u) env \<Rightarrow> ('s, 'x) Configuration \<Rightarrow> 'u \<Rightarrow> TargetKind \<Rightarrow> ObjectMeta
    \<Rightarrow> string list \<Rightarrow> ResultSet \<Rightarrow> passResult" where
  "applyObjectSchemaChecks_loop env conf unst target objMeta [] results = (Some results, None)"
| "applyObjectSchemaChecks_loop env conf unst target objMeta (checkID # checkIDs) results =
     (case resolveCheck env conf checkID (GetKind env unst) target objMeta [] False of
        Inl err \<Rightarrow> (None, Some err)
      | Inr None \<Rightarrow> applyObjectSchemaChecks_loop env conf unst target objMeta checkIDs results
      | Inr (Some check) \<Rightarrow>
          (case CheckObject env check unst of
             Inl err \<Rightarrow> (None, Some err)
           | Inr passes \<Rightarrow>
               applyObjectSchemaChecks_loop env conf unst target objMeta checkIDs
                 (fmupd (ID check) (makeResult conf check passes) results)))"

definition applyOtherSchemaChecks ::
  "('s, 'x, 'c, 'p, 'u) env \<Rightarrow> ('s, 'x) Configuration \<Rightarrow> 'u \<Rightarrow> passResult" where
  "applyOtherSchemaChecks env conf unst =
     (let results = fmempty;
          checkIDs = getSortedKeys (Checks conf)
      in case Accessor env unst of
           Inl err \<Rightarrow> (Some results, Some err)
         | Inr objMeta \<Rightarrow> applyObjectSchemaChecks_loop env conf unst [] objMeta checkIDs results)"

definition applyArbitrarySchemaChecks ::
  "('s, 'x, 'c, 'p, 'u) env \<Rightarrow> ('s, 'x) Configuration \<Rightarrow> 'u \<Rightarrow> passResult" where
  "applyArbitrarySchemaChecks env conf unst =
     (let results = fmempty
      in case Accessor env unst of
           Inl err \<Rightarrow> (Some results, Some err)
         | Inr objMeta \<Rightarrow>
             (let checkIDs = getSortedKeys (Checks conf)
              in applyObjectSchemaChecks_loop env conf unst TargetOther objMeta checkIDs results))"

section \<open>Loading the built-in catalog\<close>

definition checkOrder :: "string list" where
  "checkOrder =
     [''multipleReplicasForDeployment'',
      ''hostIPCSet'', ''hostPIDSet'', ''hostNetworkSet'',
      ''memoryLimitsMissing'', ''memoryRequestsMissing'', ''cpuLimitsMissing'',
      ''cpuRequestsMissing'', ''readinessProbeMissing'', ''livenessProbeMissing'',
      ''pullPolicyNotAlways'', ''tagNotSpecified'', ''hostPortSet'', ''runAsRootAllowed'',
      ''runAsPrivileged'', ''notReadOnlyRootFilesystem'', ''privilegeEscalationAllowed'',
      ''dangerousCapabilities'', ''insecureCapabilities'', ''priorityClassNotSet'',
      ''tlsSettingsMissing'', ''pdbDisruptionsAllowedGreaterThanZero'']"

text \<open>
  \<open>parseCheck\<close> calls \<open>d.Decode(&check)\<close> until it fails. The decoder is a
  collaborator: it is given as the list of its answers before \<open>io.EOF\<close>, each either an
  error or the change the decoded document makes to \<open>check\<close>. The end of the list is
  \<open>io.EOF\<close>.
\<close>

fun parseCheck_loop ::
  "(error + ('s SchemaCheck \<Rightarrow> 's SchemaCheck)) list \<Rightarrow> 's SchemaCheck \<Rightarrow> error + 's SchemaCheck" where
  "parseCheck_loop [] check = Inr check"
| "parseCheck_loop (d # ds) check =
     (case d of
        Inl err \<Rightarrow> Inl (DecodingFailed err)
      | Inr decoded \<Rightarrow> parseCheck_loop ds (decoded check))"

definition parseCheck ::
  "('b \<Rightarrow> (error + ('s SchemaCheck \<Rightarrow> 's SchemaCheck)) list) \<Rightarrow> 's \<Rightarrow> 'b \<Rightarrow> error + 's SchemaCheck" where
  "parseCheck decoder zero rawBytes =
     parseCheck_loop (decoder rawBytes)
       \<lparr> ID = [], Category = [], SuccessMessage = [], FailureMessage = [],
         SchemaTarget = [], Schema = zero \<rparr>"

text \<open>
  \<open>init\<close> panics when a file is missing or does not decode: \<open>Inl\<close> is the panic,
  \<open>Inr\<close> the catalog it leaves in \<open>builtInChecks\<close>.
\<close>

fun init_loop ::
  "(string \<Rightarrow> error + 'b) \<Rightarrow> ('b \<Rightarrow> (error + ('s SchemaCheck \<Rightarrow> 's SchemaCheck)) list) \<Rightarrow> 's
    \<Rightarrow> string list \<Rightarrow> (string, 's SchemaCheck) fmap \<Rightarrow> error + (string, 's SchemaCheck) fmap" where
  "init_loop findFile decoder zero [] builtIn = Inr builtIn"
| "init_loop findFile decoder zero (checkID # checkIDs) builtIn =
     (case findFile (checkID @ ''.yaml'') of
        Inl err \<Rightarrow> Inl err
      | Inr contents \<Rightarrow>
          (case parseCheck decoder zero contents of
             Inl err \<Rightarrow> Inl err
           | Inr check \<Rightarrow>
               init_loop findFile decoder zero checkIDs
                 (fmupd checkID (check\<lparr>ID := checkID\<rparr>) builtIn)))"

definition init ::
  "(string \<Rightarrow> error + 'b) \<Rightarrow> ('b \<Rightarrow> (error + ('s SchemaCheck \<Rightarrow> 's SchemaCheck)) list) \<Rightarrow> 's
    \<Rightarrow> error + (string, 's SchemaCheck) fmap" where
  "init findFile decoder zero = init_loop findFile decoder zero checkOrder fmempty"

section \<open>Catalogs keyed by check ID\<close>

text \<open>
  Modelled from the spec: a catalog maps a check ID to the definition that carries this
  ID (custom checks are "keyed by ID in the active configuration"). For the built-in
  catalog \<open>init\<close> establishes it; for the custom checks it is the work of the
  configuration loader in pkg/config, which is not part of this file.
\<close>

definition keyedByID :: "(string, 's SchemaCheck) fmap \<Rightarrow> bool" where
  "keyedByID catalog =
     list_all (\<lambda>k. map_option ID (fmlookup catalog k) = Some k)
       (sorted_list_of_fset (fmdom catalog))"

section \<open>Reading a ResultSet\<close>

text \<open>
  Modelled from the spec: the code that consumes a ResultSet is outside this file. The
  spec has it sort by check ID at read time: the records are read in ascending order of
  the keys of the map.
\<close>

definition iterateResults :: "ResultSet \<Rightarrow> ResultMessage list" where
  "iterateResults results =
     List.map_filter (fmlookup results) (sorted_list_of_fset (fmdom results))"

section \<open>The four loops as one\<close>

text \<open>
  The four loops have one shape: a step decides what a check ID contributes (an error
  that ends the pass, nothing, or a record) and the record is stored under its ID. The
  lemmas below are proved once for this shape and carried over to the loops.
\<close>

fun runChecks ::
  "(string \<Rightarrow> error + ResultMessage option) \<Rightarrow> string list \<Rightarrow> ResultSet \<Rightarrow> passResult" where
  "runChecks step [] results = (Some results, None)"
| "runChecks step (checkID # checkIDs) results =
     (case step checkID of
        Inl err \<Rightarrow> (None, Some err)
      | Inr None \<Rightarrow> runChecks step checkIDs results
      | Inr (Some r) \<Rightarrow> runChecks step checkIDs (fmupd (ResultID r) r results))"

definition podStep ::
  "('s, 'x, 'c, 'p, 'u) env \<Rightarrow> ('s, 'x) Configuration \<Rightarrow> ('c, 'p) GenericWorkload
    \<Rightarrow> string \<Rightarrow> error + ResultMessage option" where
  "podStep env conf controller checkID =
     (if \<not> DisallowExemptions conf \<and> hasExemptionAnnotation controller checkID then Inr None
      else case resolveCheck env conf checkID (Kind controller) TargetPod
                  (ObjectMeta controller) [] False of
             Inl err \<Rightarrow> Inl err
           | Inr None \<Rightarrow> Inr None
           | Inr (Some check) \<Rightarrow>
               (case CheckPod env check (PodSpec controller) of
                  Inl err \<Rightarrow> Inl err
                | Inr passes \<Rightarrow> Inr (Some (makeResult conf check passes))))"

definition controllerStep ::
  "('s, 'x, 'c, 'p, 'u) env \<Rightarrow> ('s, 'x) Configuration \<Rightarrow> ('c, 'p) GenericWorkload
    \<Rightarrow> string \<Rightarrow> error + ResultMessage option" where
  "controllerStep env conf controller checkID =
     (if \<not> DisallowExemptions conf \<and> hasExemptionAnnotation controller checkID then Inr None
      else case resolveCheck env conf checkID (Kind controller) TargetController
                  (ObjectMeta controller) [] False of
             Inl err \<Rightarrow> Inl err
           | Inr None \<Rightarrow> Inr None
           | Inr (Some check) \<Rightarrow>
               (case CheckController env check (OriginalObjectJSON controller) of
                  Inl err \<Rightarrow> Inl err
                | Inr passes \<Rightarrow> Inr (Some (makeResult conf check passes))))"

definition containerStep ::
  "('s, 'x, 'c, 'p, 'u) env \<Rightarrow> ('s, 'x) Configuration \<Rightarrow> ('c, 'p) GenericWorkload
    \<Rightarrow> 'c Container \<Rightarrow> bool \<Rightarrow> string \<Rightarrow> error + ResultMessage option" where
  "containerStep env conf controller container isInit checkID =
     (if \<not> DisallowExemptions conf \<and> hasExemptionAnnotation controller checkID then Inr None
      else case resolveCheck env conf checkID (Kind controller) TargetContainer
                  (ObjectMeta controller) (Name container) isInit of
             Inl err \<Rightarrow> Inl err
           | Inr None \<Rightarrow> Inr None
           | Inr (Some check) \<Rightarrow>
               (case (if SchemaTarget check = TargetPod
                      then CheckPod env check
                             ((PodSpec controller)\<lparr>InitContainers := [], Containers := [container]\<rparr>)
                      else CheckContainer env check container) of
                  Inl err \<Rightarrow> Inl err
                | Inr passes \<Rightarrow> Inr (Some (makeResult conf check passes))))"

definition objectStep ::
  "('s, 'x, 'c, 'p, 'u) env \<Rightarrow> ('s, 'x) Configuration \<Rightarrow> 'u \<Rightarrow> TargetKind \<Rightarrow> ObjectMeta
    \<Rightarrow> string \<Rightarrow> error + ResultMessage option" where
  "objectStep env conf unst target objMeta checkID =
     (case resolveCheck env conf checkID (GetKind env unst) target objMeta [] False of
        Inl err \<Rightarrow> Inl err
      | Inr None \<Rightarrow> Inr None
      | Inr (Some check) \<Rightarrow>
          (case CheckObject env check unst of
             Inl err \<Rightarrow> Inl err
           | Inr passes \<Rightarrow> Inr (Some (makeResult conf check passes))))"

section \<open>A sample catalog, configuration and manifests\<close>

text \<open>
  Concrete collaborators for the worked examples. A sample check carries its declared
  target and whether its schema is well formed; a sample container and a sample pod carry
  whether they comply; the configuration excludes the check IDs listed in \<open>Exemptions\<close>.
  A check for one of the three workload targets is actionable on that target, any other
  check on the objects of the kind it names.
\<close>

definition sample_check ::
  "string \<Rightarrow> string \<Rightarrow> TargetKind \<Rightarrow> string \<Rightarrow> bool \<Rightarrow> (string \<times> bool) SchemaCheck" where
  "sample_check checkID category schemaTarget target wellFormed =
     \<lparr> ID = checkID, Category = category,
       SuccessMessage = ''ok'', FailureMessage = ''not ok'',
       SchemaTarget = schemaTarget, Schema = (target, wellFormed) \<rparr>"

definition sample_env ::
  "(string \<times> bool, string list, bool, bool, string \<times> ObjectMeta option \<times> bool) env" where
  "sample_env =
     \<lparr> builtInChecks = fmap_of_list
         [(''hostIPCSet'', sample_check ''hostIPCSet'' ''Security'' TargetPod TargetPod True),
          (''memoryLimitsMissing'',
             sample_check ''memoryLimitsMissing'' ''Resources'' TargetContainer TargetContainer True),
          (''multipleReplicasForDeployment'',
             sample_check ''multipleReplicasForDeployment'' ''Reliability''
               TargetController TargetController True),
          (''tlsSettingsMissing'',
             sample_check ''tlsSettingsMissing'' ''Security'' TargetOther ''Ingress'' True)],
       conf_IsActionable =
         (\<lambda>conf ruleID namespace name containerName. ruleID \<notin> set (Exemptions conf)),
       check_IsActionable = (\<lambda>check target kind isInit.
          if target \<in> {TargetController, TargetPod, TargetContainer}
          then fst (Schema check) = target
          else fst (Schema check) = kind),
       CheckPod = (\<lambda>check pod.
          if snd (Schema check)
          then Inr (PodRest pod \<and> list_all ContainerSpec (InitContainers pod @ Containers pod))
          else Inl (Foreign ''malformed schema'')),
       CheckController = (\<lambda>check json.
          if snd (Schema check) then Inr (json \<noteq> []) else Inl (Foreign ''malformed schema'')),
       CheckContainer = (\<lambda>check container.
          if snd (Schema check) then Inr (ContainerSpec container)
          else Inl (Foreign ''malformed schema'')),
       CheckObject = (\<lambda>check unst.
          if snd (Schema check) then Inr (snd (snd unst)) else Inl (Foreign ''malformed schema'')),
       Accessor = (\<lambda>unst. case fst (snd unst) of
          None \<Rightarrow> Inl (Foreign ''object does not implement the Object interfaces'')
        | Some objMeta \<Rightarrow> Inr objMeta),
       GetKind = fst \<rparr>"

text \<open>
  The sample configuration overrides the built-in \<open>hostIPCSet\<close> and adds \<open>cpuShape\<close>,
  a container check whose schema is pod-shaped.
\<close>

definition sample_conf :: "(string \<times> bool, string list) Configuration" where
  "sample_conf =
     \<lparr> Checks = fmap_of_list
         [(''tlsSettingsMissing'', ''warning''), (''memoryLimitsMissing'', ''danger''),
          (''hostIPCSet'', ''danger''), (''multipleReplicasForDeployment'', ''ignore''),
          (''cpuShape'', ''warning'')],
       CustomChecks = fmap_of_list
         [(''cpuShape'', sample_check ''cpuShape'' ''Resources'' TargetPod TargetContainer True),
          (''hostIPCSet'', sample_check ''hostIPCSet'' ''Custom'' TargetPod TargetPod True)],
       DisallowExemptions = False,
       Exemptions = [] \<rparr>"

definition sample_meta :: "(string \<times> string) list \<Rightarrow> ObjectMeta" where
  "sample_meta annotations =
     \<lparr> GetNamespace = ''default'', GetName = ''web'', GetAnnotations = fmap_of_list annotations \<rparr>"

definition sample_container :: "bool Container" where
  "sample_container = \<lparr> Name = ''app'', ContainerSpec = False \<rparr>"

definition sample_workload :: "(string \<times> string) list \<Rightarrow> (bool, bool) GenericWorkload" where
  "sample_workload annotations =
     \<lparr> Kind = ''Deployment'',
       PodSpec = \<lparr> InitContainers = [\<lparr> Name = ''setup'', ContainerSpec = True \<rparr>],
                   Containers = [sample_container, \<lparr> Name = ''sidecar'', ContainerSpec = True \<rparr>],
                   PodRest = True \<rparr>,
       ObjectMeta = sample_meta annotations,
       OriginalObjectJSON = ''{}'' \<rparr>"

definition sample_object :: "(string \<times> string) list \<Rightarrow> string \<times> ObjectMeta option \<times> bool" where
  "sample_object annotations = (''Ingress'', Some (sample_meta annotations), False)"

text \<open>
  Two variants: a severity for \<open>myOrgCheck\<close>, which no catalog holds, and a custom
  \<open>memoryLimitsMissing\<close> whose schema is malformed.
\<close>

definition sample_conf_unknown :: "(string \<times> bool, string list) Configuration" where
  "sample_conf_unknown = sample_conf\<lparr>Checks := fmupd ''myOrgCheck'' ''warning'' (Checks sample_conf)\<rparr>"





section \<open>Facts about the loops\<close>

lemma ResultID_makeResult [simp]: "ResultID (makeResult conf check passes) = ID check"
  by (simp add: makeResult_def)

lemma pod_loop_runChecks:
  "applyPodSchemaChecks_loop env conf controller checkIDs results =
     runChecks (podStep env conf controller) checkIDs results"
  by (induction checkIDs arbitrary: results)
     (simp_all add: podStep_def split: sum.split option.split)

lemma controller_loop_runChecks:
  "applyControllerSchemaChecks_loop env conf controller checkIDs results =
     runChecks (controllerStep env conf controller) checkIDs results"
  by (induction checkIDs arbitrary: results)
     (simp_all add: controllerStep_def split: sum.split option.split)

lemma container_loop_runChecks:
  "applyContainerSchemaChecks_loop env conf controller container isInit checkIDs results =
     runChecks (containerStep env conf controller container isInit) checkIDs results"
  by (induction checkIDs arbitrary: results)
     (simp_all add: containerStep_def Let_def split: sum.split option.split)

lemma object_loop_runChecks:
  "applyObjectSchemaChecks_loop env conf unst target objMeta checkIDs results =
     runChecks (objectStep env conf unst target objMeta) checkIDs results"
  by (induction checkIDs arbitrary: results)
     (simp_all add: objectStep_def split: sum.split option.split)

lemma runChecks_append:
  "runChecks step (xs @ ys) results =
     (case runChecks step xs results of
        (Some results', None) \<Rightarrow> runChecks step ys results'
      | r \<Rightarrow> r)"
  by (induction xs arbitrary: results) (simp_all split: sum.split option.split)

lemma runChecks_shape:
  "(\<exists>results'. runChecks step xs results = (Some results', None))
    \<or> (\<exists>err. runChecks step xs results = (None, Some err))"
  by (induction xs arbitrary: results) (simp_all split: sum.split option.split)


lemma runChecks_all_skip:
  "(\<And>k. k \<in> set xs \<Longrightarrow> step k = Inr None) \<Longrightarrow>
     runChecks step xs results = (Some results, None)"
  by (induction xs arbitrary: results) simp_all

lemma runChecks_error:
  "k \<in> set xs \<Longrightarrow> step k = Inl err \<Longrightarrow> \<exists>err'. runChecks step xs results = (None, Some err')"
  by (induction xs arbitrary: results) (auto split: sum.split option.split)


text \<open>A record is always stored under its own ID.\<close>

lemma runChecks_keyed:
  assumes "runChecks step xs results = (Some results', None)"
    and "\<And>k r. fmlookup results k = Some r \<Longrightarrow> ResultID r = k"
    and "fmlookup results' k = Some r"
  shows "ResultID r = k"
  using assms
proof (induction xs arbitrary: results)
  case Nil
  then show ?case by simp
next
  case (Cons x xs)
  show ?case
  proof (cases "step x")
    case (Inl e)
    with Cons.prems(1) show ?thesis by simp
  next
    case (Inr o1)
    show ?thesis
    proof (cases o1)
      case None
      with Inr Cons.prems(1) have "runChecks step xs results = (Some results', None)" by simp
      from Cons.IH [OF this Cons.prems(2) Cons.prems(3)] show ?thesis .
    next
      case (Some r')
      with Inr Cons.prems(1)
      have run: "runChecks step xs (fmupd (ResultID r') r' results) = (Some results', None)"
        by simp
      have inv: "\<And>k r. fmlookup (fmupd (ResultID r') r' results) k = Some r \<Longrightarrow> ResultID r = k"
        using Cons.prems(2) by (auto split: if_splits)
      from Cons.IH [OF run inv Cons.prems(3)] show ?thesis .
    qed
  qed
qed

section \<open>Facts about resolution and exemption\<close>

lemma keyedByID_lookup: "keyedByID catalog \<Longrightarrow> fmlookup catalog k = Some check \<Longrightarrow> ID check = k"
proof -
  assume keyed: "keyedByID catalog" and look: "fmlookup catalog k = Some check"
  from look have "k |\<in>| fmdom catalog" by (rule fmdomI)
  then have "k \<in> set (sorted_list_of_fset (fmdom catalog))" by simp
  with keyed have "map_option ID (fmlookup catalog k) = Some k"
    unfolding keyedByID_def list_all_iff by blast
  with look show "ID check = k" by simp
qed

lemma resolveCheck_eq:
  "resolveCheck env conf checkID kind target meta containerName isInit =
     (case (case fmlookup (CustomChecks conf) checkID of
              Some check \<Rightarrow> Some check
            | None \<Rightarrow> fmlookup (builtInChecks env) checkID) of
        None \<Rightarrow> Inl (CheckNotFound checkID)
      | Some check \<Rightarrow>
          if conf_IsActionable env conf (ID check) (GetNamespace meta) (GetName meta) containerName
             \<and> check_IsActionable env check target kind isInit
          then Inr (Some check) else Inr None)"
  by (simp add: resolveCheck_def Let_def split: option.split)


lemma resolveCheck_annotations [simp]:
  "resolveCheck env conf checkID kind target (meta\<lparr>GetAnnotations := annot\<rparr>) containerName isInit =
   resolveCheck env conf checkID kind target meta containerName isInit"
  by (simp add: resolveCheck_eq split: option.split)

lemma blanket_exempt:
  "fmlookup (GetAnnotations (ObjectMeta controller)) exemptionAnnotationKey = Some v \<Longrightarrow>
   ToLower v = ''true'' \<Longrightarrow> hasExemptionAnnotation controller checkID"
  by (simp add: hasExemptionAnnotation_def index_str_def)






lemma runChecks_fst:
  "fst (runChecks step xs results) = Some results' \<Longrightarrow>
     runChecks step xs results = (Some results', None)"
  using runChecks_shape [of step xs results] by auto


text \<open>\<open>init\<close> leaves a catalog keyed by check ID that holds the IDs of \<open>checkOrder\<close>.\<close>

lemma keyedByID_iff:
  "keyedByID catalog \<longleftrightarrow> (\<forall>k check. fmlookup catalog k = Some check \<longrightarrow> ID check = k)"
proof
  assume "keyedByID catalog"
  then show "\<forall>k check. fmlookup catalog k = Some check \<longrightarrow> ID check = k"
    by (blast dest: keyedByID_lookup)
next
  assume keyed: "\<forall>k check. fmlookup catalog k = Some check \<longrightarrow> ID check = k"
  show "keyedByID catalog"
    unfolding keyedByID_def list_all_iff
  proof
    fix k assume "k \<in> set (sorted_list_of_fset (fmdom catalog))"
    then have "k |\<in>| fmdom catalog" by simp
    then obtain check where "fmlookup catalog k = Some check" by (auto elim: fmdomE)
    with keyed show "map_option ID (fmlookup catalog k) = Some k" by simp
  qed
qed

lemma init_loop_keyedByID:
  "keyedByID builtIn \<Longrightarrow> init_loop findFile decoder zero checkIDs builtIn = Inr catalog \<Longrightarrow>
     keyedByID catalog"
proof (induction checkIDs arbitrary: builtIn)
  case Nil
  then show ?case by simp
next
  case (Cons checkID checkIDs)
  from Cons.prems(2) obtain contents check
    where "init_loop findFile decoder zero checkIDs
             (fmupd checkID (check\<lparr>ID := checkID\<rparr>) builtIn) = Inr catalog"
    by (auto split: sum.splits)
  moreover from Cons.prems(1) have "keyedByID (fmupd checkID (check\<lparr>ID := checkID\<rparr>) builtIn)"
    by (simp add: keyedByID_iff)
  ultimately show ?case by (rule Cons.IH [rotated])
qed

lemma init_keyedByID: "init findFile decoder zero = Inr catalog \<Longrightarrow> keyedByID catalog"
proof -
  assume "init findFile decoder zero = Inr catalog"
  then have run: "init_loop findFile decoder zero checkOrder fmempty = Inr catalog"
    by (simp add: init_def)
  show ?thesis
    by (rule init_loop_keyedByID [OF _ run]) (simp add: keyedByID_iff)
qed

lemma init_loop_dom:
  "init_loop findFile decoder zero checkIDs builtIn = Inr catalog \<Longrightarrow>
     fset (fmdom catalog) = set checkIDs \<union> fset (fmdom builtIn)"
  by (induction checkIDs arbitrary: builtIn) (auto split: sum.splits)

lemma init_dom: "init findFile decoder zero = Inr catalog \<Longrightarrow> fset (fmdom catalog) = set checkOrder"
  unfolding init_def by (drule init_loop_dom) simp

text \<open>
  The values that \<open>ToLower\<close> maps to \<open>true\<close> are its sixteen spellings in small and
  capital letters.
\<close>

lemma le_A: "CHR ''A'' \<le> c \<longleftrightarrow> (65::nat) \<le> of_char c"
  by (simp add: less_eq_char_def)

lemma le_Z: "c \<le> CHR ''Z'' \<longleftrightarrow> of_char c \<le> (90::nat)"
  by (simp add: less_eq_char_def)

lemma of_char_toLowerChar:
  "(of_char (toLowerChar c) :: nat) =
     (if 65 \<le> (of_char c :: nat) \<and> (of_char c :: nat) \<le> 90 then of_char c + 32 else of_char c)"
  by (simp add: toLowerChar_def le_A le_Z of_char_of)


lemma of_char_eq_iff: "n < 256 \<Longrightarrow> (of_char c :: nat) = n \<longleftrightarrow> c = char_of n"
  by (auto simp: of_char_of)

lemma of_char_inj_nat: "(of_char c :: nat) = of_char l \<longleftrightarrow> c = l"
proof
  assume "(of_char c :: nat) = of_char l"
  then have "char_of (of_char c :: nat) = char_of (of_char l :: nat)" by simp
  then show "c = l" by simp
qed simp


lemma toLowerChar_eq_iff:
  assumes "(97::nat) \<le> of_char l" and "of_char l \<le> (122::nat)"
  shows "toLowerChar c = l \<longleftrightarrow> c = l \<or> c = char_of (of_char l - (32::nat))"
proof -
  have low: "(of_char l :: nat) - 32 < 256" using assms by simp
  have "toLowerChar c = l \<longleftrightarrow> (of_char (toLowerChar c) :: nat) = of_char l"
    by (simp only: of_char_inj_nat)
  also have "\<dots> \<longleftrightarrow> (of_char c :: nat) = of_char l \<or> (of_char c :: nat) = of_char l - 32"
    using assms unfolding of_char_toLowerChar by auto
  also have "\<dots> \<longleftrightarrow> c = l \<or> c = char_of (of_char l - (32::nat))"
    by (simp only: of_char_inj_nat of_char_eq_iff [OF low])
  finally show ?thesis .
qed


lemma toLowerChar_t: "toLowerChar x = CHR ''t'' \<longleftrightarrow> x = CHR ''t'' \<or> x = CHR ''T''"
proof -
  have "char_of ((of_char (CHR ''t'') :: nat) - 32) = CHR ''T''" by code_simp
  then show ?thesis by (subst toLowerChar_eq_iff) simp_all
qed

lemma toLowerChar_r: "toLowerChar x = CHR ''r'' \<longleftrightarrow> x = CHR ''r'' \<or> x = CHR ''R''"
proof -
  have "char_of ((of_char (CHR ''r'') :: nat) - 32) = CHR ''R''" by code_simp
  then show ?thesis by (subst toLowerChar_eq_iff) simp_all
qed

lemma toLowerChar_u: "toLowerChar x = CHR ''u'' \<longleftrightarrow> x = CHR ''u'' \<or> x = CHR ''U''"
proof -
  have "char_of ((of_char (CHR ''u'') :: nat) - 32) = CHR ''U''" by code_simp
  then show ?thesis by (subst toLowerChar_eq_iff) simp_all
qed

lemma toLowerChar_e: "toLowerChar x = CHR ''e'' \<longleftrightarrow> x = CHR ''e'' \<or> x = CHR ''E''"
proof -
  have "char_of ((of_char (CHR ''e'') :: nat) - 32) = CHR ''E''" by code_simp
  then show ?thesis by (subst toLowerChar_eq_iff) simp_all
qed


lemma map_eq_four:
  "map f v = [p, q, r, s] \<longleftrightarrow> (\<exists>a b c d. v = [a, b, c, d] \<and> f a = p \<and> f b = q \<and> f c = r \<and> f d = s)"
  by (auto simp: map_eq_Cons_conv)

lemma ToLower_true_iff:
  "ToLower v = ''true'' \<longleftrightarrow>
     (\<exists>a b c d. v = [a, b, c, d] \<and> (a = CHR ''t'' \<or> a = CHR ''T'') \<and> (b = CHR ''r'' \<or> b = CHR ''R'')
        \<and> (c = CHR ''u'' \<or> c = CHR ''U'') \<and> (d = CHR ''e'' \<or> d = CHR ''E''))"
  unfolding ToLower_def map_eq_four toLowerChar_t toLowerChar_r toLowerChar_u toLowerChar_e
  by (rule refl)

text \<open>Facts for the passes: the first error, what an error leaves, the keys of a ResultSet.\<close>

lemma hasExemptionAnnotation_PodSpec [simp]:
  "hasExemptionAnnotation (controller\<lparr>PodSpec := pod\<rparr>) checkID
     = hasExemptionAnnotation controller checkID"
  by (simp add: hasExemptionAnnotation_def)

lemma set_getSortedKeys [simp]: "set (getSortedKeys m) = fset (fmdom m)"
  by (simp add: getSortedKeys_def)

lemma runChecks_first_error:
  assumes "k \<in> set xs" and "step k = Inl err"
    and "snd (runChecks step (takeWhile (\<lambda>x. x \<noteq> k) xs) results) = None"
  shows "runChecks step xs results = (None, Some err)"
proof -
  from assms(1) have "\<exists>ys. dropWhile (\<lambda>x. x \<noteq> k) xs = k # ys"
    by (induction xs) auto
  then obtain ys where drop: "dropWhile (\<lambda>x. x \<noteq> k) xs = k # ys" ..
  from assms(3) obtain results'
    where pre: "runChecks step (takeWhile (\<lambda>x. x \<noteq> k) xs) results = (Some results', None)"
    using runChecks_shape [of step "takeWhile (\<lambda>x. x \<noteq> k) xs" results] by auto
  have "runChecks step xs results
      = runChecks step (takeWhile (\<lambda>x. x \<noteq> k) xs @ dropWhile (\<lambda>x. x \<noteq> k) xs) results"
    by simp
  also have "\<dots> = runChecks step (k # ys) results'"
    unfolding runChecks_append pre drop by simp
  also have "\<dots> = (None, Some err)" using assms(2) by simp
  finally show ?thesis .
qed

lemma runChecks_abort:
  assumes "k \<in> set xs" and "step k = Inl err"
  shows "(\<exists>err'. runChecks step xs results = (None, Some err'))
       \<and> (snd (runChecks step (takeWhile (\<lambda>x. x \<noteq> k) xs) results) = None
            \<longrightarrow> runChecks step xs results = (None, Some err))"
  using runChecks_error [of k xs step err results, OF assms]
    runChecks_first_error [of k xs step err results, OF assms]
  by blast

lemma resolveCheck_unknown:
  "fmlookup (CustomChecks conf) checkID = None \<Longrightarrow> fmlookup (builtInChecks env) checkID = None \<Longrightarrow>
   resolveCheck env conf checkID kind target meta containerName isInit = Inl (CheckNotFound checkID)"
  by (simp add: resolveCheck_eq)



lemma strict_sorted_list_of_fset: "sorted_wrt (<) (sorted_list_of_fset S)"
  by (simp add: sorted_list_of_fset.rep_eq strict_sorted_iff)

lemma map_filter_keyed:
  assumes "\<And>k r. fmlookup results k = Some r \<Longrightarrow> ResultID r = k"
    and "set ks \<subseteq> fset (fmdom results)"
  shows "map ResultID (List.map_filter (fmlookup results) ks) = ks"
  using assms(2)
proof (induction ks)
  case Nil
  then show ?case by (simp add: List.map_filter_simps)
next
  case (Cons k ks)
  from Cons.prems have "k |\<in>| fmdom results" by simp
  then obtain r where r: "fmlookup results k = Some r" by (auto elim: fmdomE)
  with assms(1) have "ResultID r = k" by simp
  with r Cons show ?case by (simp add: List.map_filter_simps)
qed

lemma iterateResults_IDs:
  assumes "\<And>k r. fmlookup results k = Some r \<Longrightarrow> ResultID r = k"
  shows "map ResultID (iterateResults results) = sorted_list_of_fset (fmdom results)"
  unfolding iterateResults_def
  by (rule map_filter_keyed [OF assms]) simp_all

lemma set_iterateResults: "set (iterateResults results) = fmran' results"
proof -
  have "set (iterateResults results)
      = {r. \<exists>k. k |\<in>| fmdom results \<and> fmlookup results k = Some r}"
    by (force simp: iterateResults_def List.map_filter_def image_iff)
  also have "\<dots> = fmran' results"
    by (auto intro: fmran'I fmdomI elim: fmran'E)
  finally show ?thesis .
qed

lemma runChecks_readInOrder:
  assumes "fst (runChecks step xs fmempty) = Some results"
  shows "sorted_wrt (<) (map ResultID (iterateResults results))
     \<and> set (iterateResults results) = fmran' results"
proof -
  from assms have run: "runChecks step xs fmempty = (Some results, None)"
    by (rule runChecks_fst)
  have "\<And>k r. fmlookup results k = Some r \<Longrightarrow> ResultID r = k"
    by (rule runChecks_keyed [OF run]) simp_all
  then have "map ResultID (iterateResults results) = sorted_list_of_fset (fmdom results)"
    by (rule iterateResults_IDs)
  then show ?thesis
    by (simp add: strict_sorted_list_of_fset set_iterateResults)
qed

lemma readInOrder_empty:
  "sorted_wrt (<) (map ResultID (iterateResults fmempty))
     \<and> set (iterateResults fmempty) = fmran' fmempty"
proof -
  have "sorted_list_of_fset ({||} :: string fset) = []"
    by (simp add: sorted_list_of_fset.rep_eq)
  then have "iterateResults fmempty = []"
    by (simp add: iterateResults_def List.map_filter_simps)
  then show ?thesis by (auto elim: fmran'E)
qed

lemma fmupd_commute:
  "k1 \<noteq> k2 \<Longrightarrow> fmupd k1 r1 (fmupd k2 r2 results) = fmupd k2 r2 (fmupd k1 r1 results)"
  by (rule fmap_ext) auto



section \<open>Custom checks shadow built-in checks\<close>

text \<open>
  C1. When a check ID is present both in the custom checks of the configuration and in
  the built-in catalog, \<open>resolveCheck\<close> resolves it to the custom definition: the two
  actionability tests are made on the custom definition, the custom definition is what
  is returned when both pass, and the call is a skip otherwise. The built-in definition
  is neither consulted nor returned, and no error is raised.
\<close>

theorem resolveCheck_custom_shadows_builtIn:
  assumes "fmlookup (CustomChecks conf) checkID = Some custom"
    and "fmlookup (builtInChecks env) checkID = Some builtIn"
  shows "resolveCheck env conf checkID kind target meta containerName isInit =
     (if conf_IsActionable env conf (ID custom) (GetNamespace meta) (GetName meta) containerName
         \<and> check_IsActionable env custom target kind isInit
      then Inr (Some custom) else Inr None)"
  using assms by (simp add: resolveCheck_eq)

text \<open>The sample configuration overrides the built-in \<open>hostIPCSet\<close>.\<close>

theorem resolveCheck_custom_shadows_builtIn_witness:
  "fmlookup (CustomChecks sample_conf) ''hostIPCSet''
     = Some (sample_check ''hostIPCSet'' ''Custom'' TargetPod TargetPod True)
   \<and> fmlookup (builtInChecks sample_env) ''hostIPCSet''
     = Some (sample_check ''hostIPCSet'' ''Security'' TargetPod TargetPod True)
   \<and> resolveCheck sample_env sample_conf ''hostIPCSet'' ''Deployment'' TargetPod
       (sample_meta []) [] False
     = Inr (Some (sample_check ''hostIPCSet'' ''Custom'' TargetPod TargetPod True))"
proof -
  have cu: "fmlookup (CustomChecks sample_conf) ''hostIPCSet''
     = Some (sample_check ''hostIPCSet'' ''Custom'' TargetPod TargetPod True)"
    by code_simp
  have bi: "fmlookup (builtInChecks sample_env) ''hostIPCSet''
     = Some (sample_check ''hostIPCSet'' ''Security'' TargetPod TargetPod True)"
    by code_simp
  have actionable:
    "conf_IsActionable sample_env sample_conf
       (ID (sample_check ''hostIPCSet'' ''Custom'' TargetPod TargetPod True))
       (GetNamespace (sample_meta [])) (GetName (sample_meta [])) []
     \<and> check_IsActionable sample_env (sample_check ''hostIPCSet'' ''Custom'' TargetPod TargetPod True)
         TargetPod ''Deployment'' False"
    by code_simp
  from resolveCheck_custom_shadows_builtIn [OF cu bi, of "''Deployment''" TargetPod "sample_meta []" "[]" False]
    actionable cu bi
  show ?thesis by simp
qed

section \<open>The blanket exemption\<close>

text \<open>
  C2, as stated, fails for the pass over an unstructured object: that pass never reads
  the exemption annotations. The sample Ingress carries the blanket exemption with value
  \<open>true\<close>, the configuration allows exemptions, and \<open>applyOtherSchemaChecks\<close> still
  records \<open>tlsSettingsMissing\<close>.
\<close>

theorem blanket_exemption_other_object_counterexample:
  "fmlookup (GetAnnotations (sample_meta [(''polaris.fairwinds.com/exempt'', ''true'')]))
       exemptionAnnotationKey = Some ''true''
   \<and> ToLower ''true'' = ''true''
   \<and> \<not> DisallowExemptions sample_conf
   \<and> Accessor sample_env (sample_object [(''polaris.fairwinds.com/exempt'', ''true'')])
       = Inr (sample_meta [(''polaris.fairwinds.com/exempt'', ''true'')])
   \<and> applyOtherSchemaChecks sample_env sample_conf
       (sample_object [(''polaris.fairwinds.com/exempt'', ''true'')])
     = (Some (fmupd ''tlsSettingsMissing''
                \<lparr> ResultID = ''tlsSettingsMissing'', Severity = ''warning'',
                  ResultCategory = ''Security'', Success = False, Message = ''not ok'' \<rparr>
                fmempty), None)"
  by code_simp

text \<open>
  C2, amended. For every workload manifest whose annotations hold the blanket exemption
  key \<open>polaris.fairwinds.com/exempt\<close> with a value that is \<open>true\<close> in any letter
  case, and every configuration that does not disallow exemptions, the pod pass, the
  controller pass and the container pass each return the empty ResultSet and no error.
  A value is \<open>true\<close> in any letter case when \<open>ToLower\<close> maps it to \<open>true\<close>, which
  are its sixteen spellings.
\<close>

theorem blanket_exemption_empties_workload_passes:
  assumes "fmlookup (GetAnnotations (ObjectMeta controller)) exemptionAnnotationKey = Some v"
    and "ToLower v = ''true''"
    and "\<not> DisallowExemptions conf"
  shows "applyPodSchemaChecks env conf controller = (Some fmempty, None)
       \<and> applyControllerSchemaChecks env conf controller = (Some fmempty, None)
       \<and> applyContainerSchemaChecks env conf controller container isInit = (Some fmempty, None)"
proof -
  have exempt: "\<And>k. hasExemptionAnnotation controller k"
    using assms(1,2) by (rule blanket_exempt)
  have "applyPodSchemaChecks env conf controller = (Some fmempty, None)"
    unfolding applyPodSchemaChecks_def pod_loop_runChecks
    by (rule runChecks_all_skip) (simp add: podStep_def exempt assms(3))
  moreover have "applyControllerSchemaChecks env conf controller = (Some fmempty, None)"
    unfolding applyControllerSchemaChecks_def controller_loop_runChecks
    by (rule runChecks_all_skip) (simp add: controllerStep_def exempt assms(3))
  moreover have "applyContainerSchemaChecks env conf controller container isInit = (Some fmempty, None)"
    unfolding applyContainerSchemaChecks_def container_loop_runChecks
    by (rule runChecks_all_skip) (simp add: containerStep_def exempt assms(3))
  ultimately show ?thesis by simp
qed

text \<open>The sample workload with the annotation value \<open>TRUE\<close>; without it the container pass has records.\<close>

theorem blanket_exemption_empties_workload_passes_witness:
  "fmlookup (GetAnnotations (ObjectMeta (sample_workload [(''polaris.fairwinds.com/exempt'', ''TRUE'')])))
       exemptionAnnotationKey = Some ''TRUE''
   \<and> ToLower ''TRUE'' = ''true''
   \<and> \<not> DisallowExemptions sample_conf
   \<and> applyPodSchemaChecks sample_env sample_conf
       (sample_workload [(''polaris.fairwinds.com/exempt'', ''TRUE'')]) = (Some fmempty, None)
   \<and> applyControllerSchemaChecks sample_env sample_conf
       (sample_workload [(''polaris.fairwinds.com/exempt'', ''TRUE'')]) = (Some fmempty, None)
   \<and> applyContainerSchemaChecks sample_env sample_conf
       (sample_workload [(''polaris.fairwinds.com/exempt'', ''TRUE'')]) sample_container False
     = (Some fmempty, None)
   \<and> applyContainerSchemaChecks sample_env sample_conf (sample_workload []) sample_container False
     \<noteq> (Some fmempty, None)"
proof -
  have a: "fmlookup (GetAnnotations (ObjectMeta (sample_workload [(''polaris.fairwinds.com/exempt'', ''TRUE'')])))
       exemptionAnnotationKey = Some ''TRUE''" by code_simp
  have b: "ToLower ''TRUE'' = ''true''" by code_simp
  have c: "\<not> DisallowExemptions sample_conf" by code_simp
  have d: "applyContainerSchemaChecks sample_env sample_conf (sample_workload []) sample_container False
     \<noteq> (Some fmempty, None)" by code_simp
  from blanket_exemption_empties_workload_passes [OF a b c, of sample_env sample_container False] a b c d
  show ?thesis by simp
qed

section \<open>The exemption of one check\<close>



section \<open>Disallowed exemptions\<close>

text \<open>
  C4. When the configuration sets \<open>DisallowExemptions\<close>, the annotations of the
  manifest have no effect on the pod pass, the controller pass and the container pass:
  replacing them by any other annotations, in particular by the same annotations without
  the exemption keys or by none at all, leaves the returned pair unchanged. A manifest
  that exempts every check gets the ResultSet of the manifest without annotations.
\<close>

theorem disallowed_exemptions_ignore_annotations:
  assumes "DisallowExemptions conf"
  shows "applyPodSchemaChecks env conf
           (controller\<lparr>ObjectMeta := (ObjectMeta controller)\<lparr>GetAnnotations := annot\<rparr>\<rparr>)
         = applyPodSchemaChecks env conf controller
       \<and> applyControllerSchemaChecks env conf
           (controller\<lparr>ObjectMeta := (ObjectMeta controller)\<lparr>GetAnnotations := annot\<rparr>\<rparr>)
         = applyControllerSchemaChecks env conf controller
       \<and> applyContainerSchemaChecks env conf
           (controller\<lparr>ObjectMeta := (ObjectMeta controller)\<lparr>GetAnnotations := annot\<rparr>\<rparr>)
           container isInit
         = applyContainerSchemaChecks env conf controller container isInit"
proof -
  let ?c = "controller\<lparr>ObjectMeta := (ObjectMeta controller)\<lparr>GetAnnotations := annot\<rparr>\<rparr>"
  have "podStep env conf ?c = podStep env conf controller"
    by (rule ext) (simp add: podStep_def assms split: sum.split option.split)
  moreover have "controllerStep env conf ?c = controllerStep env conf controller"
    by (rule ext) (simp add: controllerStep_def assms split: sum.split option.split)
  moreover have "containerStep env conf ?c container isInit
      = containerStep env conf controller container isInit"
    by (rule ext) (simp add: containerStep_def assms split: sum.split option.split)
  ultimately show ?thesis
    by (simp add: applyPodSchemaChecks_def applyControllerSchemaChecks_def
        applyContainerSchemaChecks_def pod_loop_runChecks controller_loop_runChecks
        container_loop_runChecks)
qed

text \<open>
  The sample workload with the blanket exemption, exemptions disallowed: the container
  pass returns what it returns without the annotation, \<open>memoryLimitsMissing\<close> failed
  included.
\<close>

theorem disallowed_exemptions_ignore_annotations_witness:
  "DisallowExemptions (sample_conf\<lparr>DisallowExemptions := True\<rparr>)
   \<and> applyContainerSchemaChecks sample_env (sample_conf\<lparr>DisallowExemptions := True\<rparr>)
       (sample_workload [(''polaris.fairwinds.com/exempt'', ''true'')]) sample_container False
     = applyContainerSchemaChecks sample_env (sample_conf\<lparr>DisallowExemptions := True\<rparr>)
       (sample_workload []) sample_container False
   \<and> (\<exists>results.
        fst (applyContainerSchemaChecks sample_env (sample_conf\<lparr>DisallowExemptions := True\<rparr>)
          (sample_workload [(''polaris.fairwinds.com/exempt'', ''true'')]) sample_container False)
          = Some results
        \<and> map_option Success (fmlookup results ''memoryLimitsMissing'') = Some False)"
proof -
  let ?conf = "sample_conf\<lparr>DisallowExemptions := True\<rparr>"
  have a: "DisallowExemptions ?conf" by simp
  have w: "(sample_workload [(''polaris.fairwinds.com/exempt'', ''true'')])
       \<lparr>ObjectMeta := (ObjectMeta (sample_workload [(''polaris.fairwinds.com/exempt'', ''true'')]))
           \<lparr>GetAnnotations := fmempty\<rparr>\<rparr> = sample_workload []"
    by (simp add: sample_workload_def sample_meta_def)
  have "map_option (\<lambda>results. map_option Success (fmlookup results ''memoryLimitsMissing''))
      (fst (applyContainerSchemaChecks sample_env ?conf
          (sample_workload [(''polaris.fairwinds.com/exempt'', ''true'')]) sample_container False))
      = Some (Some False)" by code_simp
  then have full: "\<exists>results.
        fst (applyContainerSchemaChecks sample_env ?conf
          (sample_workload [(''polaris.fairwinds.com/exempt'', ''true'')]) sample_container False)
          = Some results
        \<and> map_option Success (fmlookup results ''memoryLimitsMissing'') = Some False"
    by auto
  from disallowed_exemptions_ignore_annotations [OF a,
      where env = sample_env and annot = fmempty and container = sample_container
        and isInit = False
        and controller = "sample_workload [(''polaris.fairwinds.com/exempt'', ''true'')]"]
  have "applyContainerSchemaChecks sample_env ?conf
       (sample_workload [(''polaris.fairwinds.com/exempt'', ''true'')]) sample_container False
     = applyContainerSchemaChecks sample_env ?conf (sample_workload []) sample_container False"
    unfolding w by simp
  with a full show ?thesis by blast
qed

section \<open>A check ID that no catalog knows\<close>

text \<open>
  C5. Let the configuration give a severity to a check ID that is neither a custom check
  nor a built-in check. If the manifest does not exempt this ID (an unstructured object
  never does; its metadata accessor is assumed to succeed), every entry point returns an
  error and a nil ResultSet, hence no record. The error is the check-not-found error of
  this ID when the pass reaches it, that is when the IDs before it in the sorted order
  are evaluated without error.
\<close>

theorem unknown_check_aborts_the_pass:
  assumes "checkID |\<in>| fmdom (Checks conf)"
    and "fmlookup (CustomChecks conf) checkID = None"
    and "fmlookup (builtInChecks env) checkID = None"
  shows
    "(DisallowExemptions conf \<or> \<not> hasExemptionAnnotation controller checkID \<longrightarrow>
        (\<exists>err. applyPodSchemaChecks env conf controller = (None, Some err))
      \<and> (snd (applyPodSchemaChecks_loop env conf controller
                (takeWhile (\<lambda>k. k \<noteq> checkID) (getSortedKeys (Checks conf))) fmempty) = None
          \<longrightarrow> applyPodSchemaChecks env conf controller = (None, Some (CheckNotFound checkID)))
      \<and> (\<exists>err. applyControllerSchemaChecks env conf controller = (None, Some err))
      \<and> (snd (applyControllerSchemaChecks_loop env conf controller
                (takeWhile (\<lambda>k. k \<noteq> checkID) (getSortedKeys (Checks conf))) fmempty) = None
          \<longrightarrow> applyControllerSchemaChecks env conf controller
                = (None, Some (CheckNotFound checkID)))
      \<and> (\<exists>err. applyContainerSchemaChecks env conf controller container isInit = (None, Some err))
      \<and> (snd (applyContainerSchemaChecks_loop env conf controller container isInit
                (takeWhile (\<lambda>k. k \<noteq> checkID) (getSortedKeys (Checks conf))) fmempty) = None
          \<longrightarrow> applyContainerSchemaChecks env conf controller container isInit
                = (None, Some (CheckNotFound checkID))))
   \<and> (Accessor env unst = Inr objMeta \<longrightarrow>
        (\<exists>err. applyOtherSchemaChecks env conf unst = (None, Some err))
      \<and> (snd (applyObjectSchemaChecks_loop env conf unst [] objMeta
                (takeWhile (\<lambda>k. k \<noteq> checkID) (getSortedKeys (Checks conf))) fmempty) = None
          \<longrightarrow> applyOtherSchemaChecks env conf unst = (None, Some (CheckNotFound checkID)))
      \<and> (\<exists>err. applyArbitrarySchemaChecks env conf unst = (None, Some err))
      \<and> (snd (applyObjectSchemaChecks_loop env conf unst TargetOther objMeta
                (takeWhile (\<lambda>k. k \<noteq> checkID) (getSortedKeys (Checks conf))) fmempty) = None
          \<longrightarrow> applyArbitrarySchemaChecks env conf unst = (None, Some (CheckNotFound checkID))))"
proof -
  have key: "checkID \<in> set (getSortedKeys (Checks conf))"
    using assms(1) by simp
  have unknown: "\<And>kind target meta containerName isInit.
      resolveCheck env conf checkID kind target meta containerName isInit
        = Inl (CheckNotFound checkID)"
    using assms(2,3) by (rule resolveCheck_unknown)
  have object: "objectStep env conf unst target objMeta checkID = Inl (CheckNotFound checkID)"
    for target objMeta
    by (simp add: objectStep_def unknown)
  have workload: ?thesis if notExempt: "DisallowExemptions conf \<or> \<not> hasExemptionAnnotation controller checkID"
  proof -
    have pod: "podStep env conf controller checkID = Inl (CheckNotFound checkID)"
      using notExempt by (auto simp: podStep_def unknown)
    have controller: "controllerStep env conf controller checkID = Inl (CheckNotFound checkID)"
      using notExempt by (auto simp: controllerStep_def unknown)
    have container:
      "containerStep env conf controller container isInit checkID = Inl (CheckNotFound checkID)"
      using notExempt by (auto simp: containerStep_def unknown)
    show ?thesis
      unfolding applyPodSchemaChecks_def applyControllerSchemaChecks_def
        applyContainerSchemaChecks_def applyOtherSchemaChecks_def applyArbitrarySchemaChecks_def
        pod_loop_runChecks controller_loop_runChecks container_loop_runChecks
        object_loop_runChecks Let_def
      using runChecks_abort [of checkID _ "podStep env conf controller", OF key pod]
        runChecks_abort [of checkID _ "controllerStep env conf controller", OF key controller]
        runChecks_abort [of checkID _ "containerStep env conf controller container isInit",
          OF key container]
        runChecks_abort [of checkID _ "objectStep env conf unst [] objMeta", OF key object]
        runChecks_abort [of checkID _ "objectStep env conf unst TargetOther objMeta", OF key object]
      by simp
  qed
  have other: ?thesis if "\<not> (DisallowExemptions conf \<or> \<not> hasExemptionAnnotation controller checkID)"
    unfolding applyOtherSchemaChecks_def applyArbitrarySchemaChecks_def
      object_loop_runChecks Let_def
    using that
      runChecks_abort [of checkID _ "objectStep env conf unst [] objMeta", OF key object]
      runChecks_abort [of checkID _ "objectStep env conf unst TargetOther objMeta", OF key object]
    by simp
  from workload other show ?thesis by blast
qed

text \<open>
  The sample configuration with a severity for \<open>myOrgCheck\<close>, which no catalog holds:
  all five entry points return the check-not-found error and no ResultSet.
\<close>

theorem unknown_check_aborts_the_pass_witness:
  "''myOrgCheck'' |\<in>| fmdom (Checks sample_conf_unknown)
   \<and> fmlookup (CustomChecks sample_conf_unknown) ''myOrgCheck'' = None
   \<and> fmlookup (builtInChecks sample_env) ''myOrgCheck'' = None
   \<and> \<not> hasExemptionAnnotation (sample_workload []) ''myOrgCheck''
   \<and> Accessor sample_env (sample_object []) = Inr (sample_meta [])
   \<and> applyPodSchemaChecks sample_env sample_conf_unknown (sample_workload [])
       = (None, Some (CheckNotFound ''myOrgCheck''))
   \<and> applyControllerSchemaChecks sample_env sample_conf_unknown (sample_workload [])
       = (None, Some (CheckNotFound ''myOrgCheck''))
   \<and> applyContainerSchemaChecks sample_env sample_conf_unknown (sample_workload [])
         sample_container False
       = (None, Some (CheckNotFound ''myOrgCheck''))
   \<and> applyOtherSchemaChecks sample_env sample_conf_unknown (sample_object [])
       = (None, Some (CheckNotFound ''myOrgCheck''))
   \<and> applyArbitrarySchemaChecks sample_env sample_conf_unknown (sample_object [])
       = (None, Some (CheckNotFound ''myOrgCheck''))"
proof -
  have a: "''myOrgCheck'' |\<in>| fmdom (Checks sample_conf_unknown)" by code_simp
  have b: "fmlookup (CustomChecks sample_conf_unknown) ''myOrgCheck'' = None" by code_simp
  have c: "fmlookup (builtInChecks sample_env) ''myOrgCheck'' = None" by code_simp
  have d: "\<not> hasExemptionAnnotation (sample_workload []) ''myOrgCheck''" by code_simp
  have e: "Accessor sample_env (sample_object []) = Inr (sample_meta [])" by code_simp
  have p1: "snd (applyPodSchemaChecks_loop sample_env sample_conf_unknown (sample_workload [])
      (takeWhile (\<lambda>k. k \<noteq> ''myOrgCheck'') (getSortedKeys (Checks sample_conf_unknown))) fmempty)
      = None" by code_simp
  have p2: "snd (applyControllerSchemaChecks_loop sample_env sample_conf_unknown (sample_workload [])
      (takeWhile (\<lambda>k. k \<noteq> ''myOrgCheck'') (getSortedKeys (Checks sample_conf_unknown))) fmempty)
      = None" by code_simp
  have p3: "snd (applyContainerSchemaChecks_loop sample_env sample_conf_unknown (sample_workload [])
      sample_container False
      (takeWhile (\<lambda>k. k \<noteq> ''myOrgCheck'') (getSortedKeys (Checks sample_conf_unknown))) fmempty)
      = None" by code_simp
  have p4: "snd (applyObjectSchemaChecks_loop sample_env sample_conf_unknown (sample_object []) []
      (sample_meta [])
      (takeWhile (\<lambda>k. k \<noteq> ''myOrgCheck'') (getSortedKeys (Checks sample_conf_unknown))) fmempty)
      = None" by code_simp
  have p5: "snd (applyObjectSchemaChecks_loop sample_env sample_conf_unknown (sample_object [])
      TargetOther (sample_meta [])
      (takeWhile (\<lambda>k. k \<noteq> ''myOrgCheck'') (getSortedKeys (Checks sample_conf_unknown))) fmempty)
      = None" by code_simp
  from unknown_check_aborts_the_pass [OF a b c,
      where controller = "sample_workload []" and container = sample_container
        and isInit = False and unst = "sample_object []" and objMeta = "sample_meta []"]
    a b c d e p1 p2 p3 p4 p5
  show ?thesis by blast
qed

section \<open>No results next to an error\<close>



section \<open>The order in which a ResultSet is read\<close>

text \<open>
  C7. A ResultSet returned by any of the five entry points is read in strictly ascending
  lexicographic order of check ID, and the reading yields exactly its records: every
  record is stored under its own ID, and the reader goes through the keys in ascending
  order. The order of insertion does not show in what is read. The passes themselves
  visit the check IDs of the configuration in ascending order, each once, whatever order
  the built-in catalog declares them in.
\<close>

theorem result_set_is_read_in_check_ID_order:
  "(\<forall>results. fst (applyPodSchemaChecks env conf controller) = Some results \<longrightarrow>
       sorted_wrt (<) (map ResultID (iterateResults results))
       \<and> set (iterateResults results) = fmran' results)
   \<and> (\<forall>results. fst (applyControllerSchemaChecks env conf controller) = Some results \<longrightarrow>
       sorted_wrt (<) (map ResultID (iterateResults results))
       \<and> set (iterateResults results) = fmran' results)
   \<and> (\<forall>results. fst (applyContainerSchemaChecks env conf controller container isInit)
         = Some results \<longrightarrow>
       sorted_wrt (<) (map ResultID (iterateResults results))
       \<and> set (iterateResults results) = fmran' results)
   \<and> (\<forall>results. fst (applyOtherSchemaChecks env conf unst) = Some results \<longrightarrow>
       sorted_wrt (<) (map ResultID (iterateResults results))
       \<and> set (iterateResults results) = fmran' results)
   \<and> (\<forall>results. fst (applyArbitrarySchemaChecks env conf unst) = Some results \<longrightarrow>
       sorted_wrt (<) (map ResultID (iterateResults results))
       \<and> set (iterateResults results) = fmran' results)
   \<and> (k1 \<noteq> k2 \<longrightarrow>
       iterateResults (fmupd k1 r1 (fmupd k2 r2 results0))
       = iterateResults (fmupd k2 r2 (fmupd k1 r1 results0)))
   \<and> sorted_wrt (<) (getSortedKeys (Checks conf))
   \<and> set (getSortedKeys (Checks conf)) = fset (fmdom (Checks conf))"
proof -
  have object: "sorted_wrt (<) (map ResultID (iterateResults results))
       \<and> set (iterateResults results) = fmran' results"
    if "fst (case Accessor env unst of
               Inl err \<Rightarrow> (Some fmempty, Some err)
             | Inr objMeta \<Rightarrow>
                 runChecks (objectStep env conf unst target objMeta)
                   (getSortedKeys (Checks conf)) fmempty) = Some results"
    for results target
    using that readInOrder_empty
    by (cases "Accessor env unst") (auto dest: runChecks_readInOrder)
  show ?thesis
    unfolding applyPodSchemaChecks_def applyControllerSchemaChecks_def
      applyContainerSchemaChecks_def applyOtherSchemaChecks_def applyArbitrarySchemaChecks_def
      pod_loop_runChecks controller_loop_runChecks container_loop_runChecks
      object_loop_runChecks Let_def
    using object
    by (auto simp: fmupd_commute getSortedKeys_def strict_sorted_list_of_fset
        dest: runChecks_readInOrder)
qed

text \<open>
  The container pass on the sample workload, and the same two records inserted in the
  other order.
\<close>

theorem result_set_is_read_in_check_ID_order_witness:
  "fst (applyContainerSchemaChecks sample_env sample_conf (sample_workload []) sample_container False)
     = Some (fmupd ''memoryLimitsMissing''
              \<lparr> ResultID = ''memoryLimitsMissing'', Severity = ''danger'',
                ResultCategory = ''Resources'', Success = False, Message = ''not ok'' \<rparr>
            (fmupd ''cpuShape''
              \<lparr> ResultID = ''cpuShape'', Severity = ''warning'', ResultCategory = ''Resources'',
                Success = False, Message = ''not ok'' \<rparr> fmempty))
   \<and> sorted_wrt (<) (map ResultID (iterateResults
         (fmupd ''memoryLimitsMissing''
              \<lparr> ResultID = ''memoryLimitsMissing'', Severity = ''danger'',
                ResultCategory = ''Resources'', Success = False, Message = ''not ok'' \<rparr>
            (fmupd ''cpuShape''
              \<lparr> ResultID = ''cpuShape'', Severity = ''warning'', ResultCategory = ''Resources'',
                Success = False, Message = ''not ok'' \<rparr> fmempty))))
   \<and> map ResultID (iterateResults
         (fmupd ''cpuShape''
              \<lparr> ResultID = ''cpuShape'', Severity = ''warning'', ResultCategory = ''Resources'',
                Success = False, Message = ''not ok'' \<rparr>
            (fmupd ''memoryLimitsMissing''
              \<lparr> ResultID = ''memoryLimitsMissing'', Severity = ''danger'',
                ResultCategory = ''Resources'', Success = False, Message = ''not ok'' \<rparr>
             fmempty)))
     = [''cpuShape'', ''memoryLimitsMissing'']"
proof -
  let ?m = "\<lparr> ResultID = ''memoryLimitsMissing'', Severity = ''danger'',
                ResultCategory = ''Resources'', Success = False, Message = ''not ok'' \<rparr>"
  let ?c = "\<lparr> ResultID = ''cpuShape'', Severity = ''warning'', ResultCategory = ''Resources'',
                Success = False, Message = ''not ok'' \<rparr>"
  have run: "fst (applyContainerSchemaChecks sample_env sample_conf (sample_workload [])
       sample_container False)
     = Some (fmupd ''memoryLimitsMissing'' ?m (fmupd ''cpuShape'' ?c fmempty))"
    by code_simp
  have ids: "map ResultID (iterateResults
         (fmupd ''cpuShape'' ?c (fmupd ''memoryLimitsMissing'' ?m fmempty)))
     = [''cpuShape'', ''memoryLimitsMissing'']"
    by code_simp
  from result_set_is_read_in_check_ID_order [where env = sample_env and conf = sample_conf
      and controller = "sample_workload []" and container = sample_container and isInit = False]
    run
  have "sorted_wrt (<) (map ResultID (iterateResults
      (fmupd ''memoryLimitsMissing'' ?m (fmupd ''cpuShape'' ?c fmempty))))"
    by blast
  with run ids show ?thesis by blast
qed

section \<open>Pod-shaped checks in the container pass\<close>

text \<open>
  C8. The container pass does not depend on the other containers of the workload:
  replacing the containers and the init containers of its pod specification by any
  others leaves the returned pair unchanged. For a check that resolves in the container
  pass and whose \<open>SchemaTarget\<close> is \<open>TargetPod\<close>, the predicate is evaluated on the
  pod specification whose init containers are empty and whose containers are the one
  container under test.
\<close>

theorem container_pass_sees_one_container:
  "applyContainerSchemaChecks env conf
       (controller\<lparr>PodSpec := (PodSpec controller)\<lparr>InitContainers := inits,
                                                   Containers := siblings\<rparr>\<rparr>)
       container isInit
     = applyContainerSchemaChecks env conf controller container isInit
   \<and> (resolveCheck env conf checkID (Kind controller) TargetContainer (ObjectMeta controller)
         (Name container) isInit = Inr (Some check)
       \<and> SchemaTarget check = TargetPod
       \<and> (DisallowExemptions conf \<or> \<not> hasExemptionAnnotation controller checkID)
      \<longrightarrow> applyContainerSchemaChecks_loop env conf controller container isInit
             (checkID # checkIDs) results
          = (case CheckPod env check
                    \<lparr> InitContainers = [], Containers = [container],
                      PodRest = PodRest (PodSpec controller) \<rparr> of
               Inl err \<Rightarrow> (None, Some err)
             | Inr passes \<Rightarrow>
                 applyContainerSchemaChecks_loop env conf controller container isInit checkIDs
                   (fmupd (ID check) (makeResult conf check passes) results)))"
proof -
  let ?c = "controller\<lparr>PodSpec := (PodSpec controller)\<lparr>InitContainers := inits,
                                                   Containers := siblings\<rparr>\<rparr>"
  have "containerStep env conf ?c container isInit
      = containerStep env conf controller container isInit"
    by (rule ext) (simp add: containerStep_def split: sum.split option.split)
  then have siblings: "applyContainerSchemaChecks env conf ?c container isInit
      = applyContainerSchemaChecks env conf controller container isInit"
    by (simp add: applyContainerSchemaChecks_def container_loop_runChecks)
  have copy: "(PodSpec controller)\<lparr>InitContainers := [], Containers := [container]\<rparr>
      = \<lparr> InitContainers = [], Containers = [container], PodRest = PodRest (PodSpec controller) \<rparr>"
    by simp
  show ?thesis
    using siblings by (auto simp: Let_def copy)
qed

text \<open>
  The pod-shaped \<open>cpuShape\<close> on the sample container, which does not comply, in a
  workload whose other containers do.
\<close>

theorem container_pass_sees_one_container_witness:
  "resolveCheck sample_env sample_conf ''cpuShape'' (Kind (sample_workload [])) TargetContainer
       (ObjectMeta (sample_workload [])) (Name sample_container) False
     = Inr (Some (sample_check ''cpuShape'' ''Resources'' TargetPod TargetContainer True))
   \<and> SchemaTarget (sample_check ''cpuShape'' ''Resources'' TargetPod TargetContainer True) = TargetPod
   \<and> \<not> hasExemptionAnnotation (sample_workload []) ''cpuShape''
   \<and> CheckPod sample_env (sample_check ''cpuShape'' ''Resources'' TargetPod TargetContainer True)
        \<lparr> InitContainers = [], Containers = [sample_container],
          PodRest = PodRest (PodSpec (sample_workload [])) \<rparr> = Inr False
   \<and> applyContainerSchemaChecks_loop sample_env sample_conf (sample_workload []) sample_container
        False [''cpuShape''] fmempty
     = (Some (fmupd ''cpuShape''
          (makeResult sample_conf
             (sample_check ''cpuShape'' ''Resources'' TargetPod TargetContainer True) False)
          fmempty), None)
   \<and> applyContainerSchemaChecks sample_env sample_conf
        ((sample_workload [])\<lparr>PodSpec := (PodSpec (sample_workload []))
            \<lparr>InitContainers := [], Containers := [\<lparr> Name = ''other'', ContainerSpec = False \<rparr>]\<rparr>\<rparr>)
        sample_container False
     = applyContainerSchemaChecks sample_env sample_conf (sample_workload []) sample_container False"
proof -
  let ?check = "sample_check ''cpuShape'' ''Resources'' TargetPod TargetContainer True"
  have a: "resolveCheck sample_env sample_conf ''cpuShape'' (Kind (sample_workload []))
       TargetContainer (ObjectMeta (sample_workload [])) (Name sample_container) False
     = Inr (Some ?check)" by code_simp
  have b: "SchemaTarget ?check = TargetPod" by code_simp
  have c: "\<not> hasExemptionAnnotation (sample_workload []) ''cpuShape''" by code_simp
  have d: "CheckPod sample_env ?check
        \<lparr> InitContainers = [], Containers = [sample_container],
          PodRest = PodRest (PodSpec (sample_workload [])) \<rparr> = Inr False" by code_simp
  note inst = container_pass_sees_one_container [where env = sample_env and conf = sample_conf
      and controller = "sample_workload []" and container = sample_container and isInit = False
      and checkID = "''cpuShape''" and check = ?check and checkIDs = "[]" and results = fmempty
      and inits = "[]" and siblings = "[\<lparr> Name = ''other'', ContainerSpec = False \<rparr>]"]
  from inst a b c d
  have loop: "applyContainerSchemaChecks_loop sample_env sample_conf (sample_workload [])
        sample_container False [''cpuShape''] fmempty
     = (Some (fmupd ''cpuShape'' (makeResult sample_conf ?check False) fmempty), None)"
    by (simp add: sample_check_def)
  from inst a b c d loop show ?thesis by blast
qed

section \<open>Checks that are not actionable\<close>



section \<open>Only the check IDs of the severity mapping\<close>



end
